theory Spec2Isabelle
  imports Complex_Main
begin

section \<open>Text and numbers\<close>

text \<open>
  A Python \<open>str\<close> whose characters the program inspects (element text, regex matches) is
  a list of Unicode code points. Names that are only compared or passed on (source names,
  URLs, CSS selectors, symbols) are Isabelle strings; all of them are ASCII in the program.

  Python numbers are modelled by \<open>real\<close>: a parsed decimal literal denotes its exact
  value, so the rounding of IEEE doubles, infinities and NaN are outside the model. On
  finite values the order and the test against zero agree with Python's.
\<close>

type_synonym pystr = "nat list"

definition ascii :: "string \<Rightarrow> pystr" where
  "ascii s = map of_char s"

text \<open>
  The regex class \<open>\d\<close> on a \<open>str\<close> pattern and \<open>float()\<close> share one notion of digit:
  the characters of Unicode category Nd. Every script's digits are ten consecutive code
  points; \<open>decimal_starts\<close> lists the code point of each script's zero (Unicode 14, the
  table of CPython 3.11).
\<close>

definition decimal_starts :: "nat list" where
  "decimal_starts =
     [48, 1632, 1776, 1984, 2406, 2534, 2662, 2790, 2918, 3046, 3174, 3302, 3430, 3558,
      3664, 3792, 3872, 4160, 4240, 6112, 6160, 6470, 6608, 6784, 6800, 6992, 7088, 7232,
      7248, 42528, 43216, 43264, 43472, 43504, 43600, 44016, 65296, 66720, 68912, 69734,
      69872, 69942, 70096, 70384, 70736, 70864, 71248, 71360, 71472, 71904, 72016, 72784,
      73040, 73120, 92768, 92864, 93008, 120782, 120792, 120802, 120812, 120822, 123200,
      123632, 125264, 130032]"

definition todecimal :: "nat \<Rightarrow> nat option" where
  "todecimal c = map_option (\<lambda>s. c - s) (find (\<lambda>s. s \<le> c \<and> c < s + 10) decimal_starts)"

definition is_digit :: "nat \<Rightarrow> bool" where
  "is_digit c = (todecimal c \<noteq> None)"

definition is_sign :: "nat \<Rightarrow> bool" where
  \<comment> \<open>the class \<open>[+-]\<close>\<close>
  "is_sign c = (c = 43 \<or> c = 45)"

fun digits_value :: "nat \<Rightarrow> pystr \<Rightarrow> nat" where
  "digits_value acc [] = acc"
| "digits_value acc (c # cs) =
     digits_value (10 * acc + (case todecimal c of Some d \<Rightarrow> d | None \<Rightarrow> 0)) cs"

text \<open>
  \<open>float(s)\<close> for a string made of signs, dots and digits: an optional sign, then digits
  with an optional dot and fraction, or a dot followed by digits. \<open>None\<close> is ValueError.
  Python's \<open>float\<close> also accepts surrounding whitespace, underscores between digits,
  exponents, \<open>inf\<close> and \<open>nan\<close>; the program never passes such a string (the callers
  strip or never match those characters), and the model answers \<open>None\<close> there.
\<close>

definition float_body :: "pystr \<Rightarrow> real option" where
  \<comment> \<open>the part after the sign\<close>
  "float_body body =
     (let ip = takeWhile is_digit body;
          rest = dropWhile is_digit body
      in case rest of
           [] \<Rightarrow> if ip = [] then None else Some (real (digits_value 0 ip))
         | c # fp \<Rightarrow>
             if c = 46 \<and> list_all is_digit fp \<and> \<not> (ip = [] \<and> fp = [])
             then Some (real (digits_value 0 ip) + real (digits_value 0 fp) / 10 ^ length fp)
             else None)"

definition py_float :: "pystr \<Rightarrow> real option" where
  "py_float s =
     (case s of
        [] \<Rightarrow> None
      | c # r \<Rightarrow>
          if c = 45 then map_option (\<lambda>x. - x) (float_body r)
          else if c = 43 then float_body r
          else float_body s)"

subsection \<open>\<open>_clean_number\<close> (both files)\<close>

definition replace_comma :: "pystr \<Rightarrow> pystr" where
  \<comment> \<open>\<open>text.replace(',', '')\<close>\<close>
  "replace_comma text = filter (\<lambda>c. c \<noteq> 44) text"

definition keep_numeric :: "nat \<Rightarrow> bool" where
  \<comment> \<open>the complement of the class \<open>[^\d.-]\<close>\<close>
  "keep_numeric c = (is_digit c \<or> c = 46 \<or> c = 45)"

definition sub_non_numeric :: "pystr \<Rightarrow> pystr" where
  \<comment> \<open>\<open>re.sub(r'[^\d.-]', '', s)\<close>\<close>
  "sub_non_numeric s = filter keep_numeric s"

definition clean_number :: "pystr \<Rightarrow> real option" where
  "clean_number text =
     (if text = [] then None
      else py_float (sub_non_numeric (replace_comma text)))"

subsection \<open>\<open>_extract_percentage\<close> (both files)\<close>

definition replace_percent :: "pystr \<Rightarrow> pystr" where
  \<comment> \<open>\<open>text.replace('%', '')\<close>\<close>
  "replace_percent text = filter (\<lambda>c. c \<noteq> 37) text"

text \<open>
  \<open>number_at s\<close> is what \<open>\d+(?:\.\d+)?\<close> consumes at the start of \<open>s\<close> when \<open>s\<close>
  starts with a digit: the longest run of digits, and a dot with the digits after it when
  at least one digit follows the dot.
\<close>

definition number_at :: "pystr \<Rightarrow> pystr" where
  "number_at s =
     (let ip = takeWhile is_digit s; rest = dropWhile is_digit s
      in case rest of
           c # f # fs \<Rightarrow>
             if c = 46 \<and> is_digit f then ip @ c # takeWhile is_digit (f # fs) else ip
         | _ \<Rightarrow> ip)"

text \<open>
  \<open>re.search(r'([+-]?\d+(?:\.\d+)?)', s)\<close>, group 1 of the leftmost match: a match
  starts at a sign directly followed by a digit, or at a digit.
\<close>

fun search_number :: "pystr \<Rightarrow> pystr option" where
  "search_number [] = None"
| "search_number (c # cs) =
     (if is_sign c \<and> (case cs of [] \<Rightarrow> False | d # _ \<Rightarrow> is_digit d) then Some (c # number_at cs)
      else if is_digit c then Some (number_at (c # cs))
      else search_number cs)"

definition extract_percentage :: "pystr \<Rightarrow> real option" where
  "extract_percentage text =
     (if text = [] then None
      else case search_number (replace_percent text) of
             None \<Rightarrow> None
           | Some m \<Rightarrow> py_float m)"

section \<open>Observations and the consolidated quote\<close>

text \<open>
  An observation is the dict an extraction routine builds. Each numeric key is absent
  (\<open>None\<close>), present with the value \<open>None\<close> (\<open>Some None\<close>, stored when the parser failed
  and the routine did not check) or present with a number. \<open>py_get\<close> is \<open>d.get(key)\<close>.
\<close>

record observation =
  source :: "string option"
  url :: "string option"
  current_price :: "real option option"
  change_percent :: "real option option"
  day_high :: "real option option"
  day_low :: "real option option"

definition py_get :: "real option option \<Rightarrow> real option" where
  "py_get v = (case v of None \<Rightarrow> None | Some x \<Rightarrow> x)"

definition truthy :: "real option \<Rightarrow> bool" where
  \<comment> \<open>Python truth value of \<open>None\<close> or a number\<close>
  "truthy v = (case v of None \<Rightarrow> False | Some x \<Rightarrow> x \<noteq> 0)"

text \<open>The comprehension \<open>[d.get(key) for d in scraped_data if d.get(key)]\<close>.\<close>

fun collect :: "(observation \<Rightarrow> real option option) \<Rightarrow> observation list \<Rightarrow> real list" where
  "collect key [] = []"
| "collect key (d # ds) =
     (if truthy (py_get (key d))
      then (case py_get (key d) of Some x \<Rightarrow> x # collect key ds | None \<Rightarrow> collect key ds)
      else collect key ds)"

definition get_source :: "observation \<Rightarrow> string" where
  \<comment> \<open>\<open>d.get('source', 'Unknown')\<close>\<close>
  "get_source d = (case observation.source d of None \<Rightarrow> ''Unknown'' | Some s \<Rightarrow> s)"

record quote =
  symbol :: string
  company_name :: string
  current_price :: real
  change_percent :: real
  day_high :: real
  day_low :: real
  volume :: real
  last_updated :: string
  sources :: "string list"
  data_quality :: string

text \<open>
  The dict both consolidators start from. \<open>now\<close> stands for
  \<open>datetime.now().isoformat()\<close>, read from the clock by the caller of the model.
\<close>

definition initial_quote :: "string \<Rightarrow> string \<Rightarrow> string \<Rightarrow> quote" where
  "initial_quote now symbol' company_name' =
     \<lparr>symbol = symbol', company_name = company_name', current_price = 0, change_percent = 0,
      day_high = 0, day_low = 0, volume = 0, last_updated = now, sources = [],
      data_quality = ''low''\<rparr>"

text \<open>
  \<open>sorted(xs)[len(xs)//2]\<close>. The callers guard it with \<open>if xs\<close>, and the index is in
  range for a non-empty list, so the IndexError branch is never taken; it is written out as
  the value 0 only to keep the function total.
\<close>

definition sorted_middle :: "real list \<Rightarrow> real" where
  "sorted_middle xs =
     (if length xs div 2 < length xs then sort xs ! (length xs div 2) else 0)"

definition set_quality :: "observation list \<Rightarrow> quote \<Rightarrow> quote" where
  "set_quality scraped_data q =
     (if length scraped_data \<ge> 3 then q\<lparr>data_quality := ''high''\<rparr>
      else if length scraped_data \<ge> 2 then q\<lparr>data_quality := ''medium''\<rparr>
      else q)"

subsection \<open>\<open>_consolidate_stock_data\<close> (stock-scraper.py)\<close>

definition consolidate_stock_data ::
  "string \<Rightarrow> observation list \<Rightarrow> string \<Rightarrow> string \<Rightarrow> quote" where
  "consolidate_stock_data now scraped_data symbol' company_name' =
     (let consolidated = initial_quote now symbol' company_name'
      in if scraped_data = [] then consolidated
         else
           let prices = collect observation.current_price scraped_data;
               change_percents = collect observation.change_percent scraped_data;
               day_highs = collect observation.day_high scraped_data;
               day_lows = collect observation.day_low scraped_data;
               consolidated =
                 (if prices \<noteq> [] then consolidated\<lparr>current_price := sorted_middle prices\<rparr>
                  else consolidated);
               consolidated =
                 (if change_percents \<noteq> []
                  then consolidated\<lparr>change_percent := sorted_middle change_percents\<rparr>
                  else consolidated);
               consolidated =
                 (if day_highs \<noteq> [] then consolidated\<lparr>day_high := sorted_middle day_highs\<rparr>
                  else consolidated);
               consolidated =
                 (if day_lows \<noteq> [] then consolidated\<lparr>day_low := sorted_middle day_lows\<rparr>
                  else consolidated);
               consolidated = consolidated\<lparr>sources := map get_source scraped_data\<rparr>
           in set_quality scraped_data consolidated)"

subsection \<open>\<open>_consolidate_data\<close> (scrape-stock.py)\<close>

definition consolidate_data ::
  "string \<Rightarrow> observation list \<Rightarrow> string \<Rightarrow> string \<Rightarrow> quote" where
  "consolidate_data now scraped_data symbol' company_name' =
     (let result = initial_quote now symbol' company_name'
      in if scraped_data = [] then result
         else
           let prices = collect observation.current_price scraped_data;
               changes = collect observation.change_percent scraped_data;
               result =
                 (if prices \<noteq> [] then result\<lparr>current_price := sorted_middle prices\<rparr>
                  else result);
               result =
                 (if changes \<noteq> [] then result\<lparr>change_percent := sorted_middle changes\<rparr>
                  else result);
               result = result\<lparr>sources := map get_source scraped_data\<rparr>
           in set_quality scraped_data result)"

section \<open>Documents\<close>

text \<open>
  Fetching a page, parsing it and matching a regular expression against its text are done
  by libraries. A fetched page is modelled by what those libraries answer:
  \<^item> \<open>select_one doc sel\<close> is the text of the first element that matches the CSS selector
    \<open>sel\<close> (\<open>soup.select_one(sel)\<close> followed by \<open>.text\<close> or \<open>.get_text()\<close>), \<open>None\<close> when
    no element matches (an element is always true in a condition; the selectors of the
    program are well-formed, so the call does not raise);
  \<^item> \<open>scripts doc\<close> describes the \<open>script\<close> elements, as far as the NSE routine looks at
    them;
  \<^item> \<open>findall doc p\<close> is \<open>re.findall(p, text)\<close> for the lower-cased text of the page, the
    list of the strings captured by the group of \<open>p\<close>.

  The patterns are named here; each captures one number.
  \<^item> \<open>RupeeSign\<close>: a rupee sign, optional blanks, digits and commas with an optional
    fraction of one or two digits;
  \<^item> \<open>RsPrefix\<close>: the same number after \<open>rs\<close> with an optional dot;
  \<^item> \<open>QuotedPrice\<close>: the same number after \<open>"price"\<close> and colons or blanks;
  \<^item> \<open>CurrentLabel\<close>, \<open>LastLabel\<close>: the same number after \<open>current\<close> or \<open>last\<close>, colons or
    blanks and an optional rupee sign;
  \<^item> \<open>PriceLabel\<close>: the same number after \<open>price\<close> and colons or blanks;
  \<^item> \<open>RupeesSuffix\<close>: the same number before \<open>rupees\<close>;
  \<^item> \<open>Percent\<close>: an optionally signed decimal number before a percent sign;
  \<^item> \<open>ChangePercent\<close>: the same after \<open>change\<close> and colons or blanks.
\<close>

datatype pattern =
  RupeeSign | RsPrefix | QuotedPrice | CurrentLabel | LastLabel | PriceLabel | RupeesSuffix
  | Percent | ChangePercent

text \<open>
  A \<open>script\<close> element as \<open>_scrape_nse\<close> sees it. \<open>NoLastPrice\<close>: it has no string or the
  string does not contain \<open>lastPrice\<close>. \<open>NoJson\<close>: no brace-delimited substring is found,
  or \<open>json.loads\<close> raises. \<open>Json kv\<close>: \<open>json.loads\<close> returned a dict; for a key of the
  dict, \<open>kv\<close> holds what \<open>float\<close> makes of its value, \<open>None\<close> when \<open>float\<close> raises.
\<close>

datatype script = NoLastPrice | NoJson | Json "(string \<times> real option) list"

record document =
  select_one :: "string \<Rightarrow> pystr option"
  scripts :: "script list"
  findall :: "pattern \<Rightarrow> pystr list"

record url_info =
  url :: string
  source :: string

datatype error = ValueError

subsection \<open>ASCII strings\<close>

definition lower :: "string \<Rightarrow> string" where
  \<comment> \<open>\<open>str.lower()\<close> on ASCII text\<close>
  "lower s =
     map (\<lambda>c. if 65 \<le> (of_char c :: nat) \<and> (of_char c :: nat) \<le> 90
              then char_of ((of_char c :: nat) + 32) else c) s"

fun starts_with :: "string \<Rightarrow> string \<Rightarrow> bool" where
  "starts_with [] hay = True"
| "starts_with (n # ns) [] = False"
| "starts_with (n # ns) (h # hs) = (n = h \<and> starts_with ns hs)"

fun contains :: "string \<Rightarrow> string \<Rightarrow> bool" where
  \<comment> \<open>\<open>needle in hay\<close>\<close>
  "contains needle [] = (needle = [])"
| "contains needle (h # hs) = (starts_with needle (h # hs) \<or> contains needle hs)"

definition bslash :: string where
  "bslash = [CHR 0x5C]"

definition attr :: "string \<Rightarrow> string \<Rightarrow> string" where
  \<comment> \<open>the attribute selector with the value in double quotes\<close>
  "attr k v = ''['' @ k @ ''='' @ [CHR 0x22] @ v @ [CHR 0x22] @ '']''"

definition esc :: "string \<Rightarrow> string" where
  \<comment> \<open>a parenthesised class-name part, both parentheses escaped by a backslash\<close>
  "esc s = bslash @ ''('' @ s @ bslash @ '')''"

section \<open>Extraction, scrape-stock.py\<close>

subsection \<open>\<open>_extract_with_beautifulsoup\<close>\<close>

definition selectors :: "string \<Rightarrow> string list \<times> string list" where
  "selectors src =
     (if contains ''moneycontrol'' (lower src) then
        ([''.pcnstkprc'', ''.prc_flot'', ''.FL .gD_12'', attr ''data-field'' ''last_price''],
         [''.gD_12 .FL'', ''.prcntchng'', attr ''data-field'' ''percentage_change''])
      else if contains ''yahoo'' (lower src) then
        ([attr ''data-test'' ''qsp-price'', ''.Fw'' @ esc ''b'' @ '' .Fz'' @ esc ''36px'',
          ''.Trsdu'' @ bslash @ ''(0'' @ bslash @ ''.3s'' @ bslash @ '')''],
         [attr ''data-test'' ''qsp-price-change-percent'', ''.Fw'' @ esc ''500''])
      else if contains ''economic times'' (lower src) then
        ([''.price .number'', ''.last-price'', ''.current-price''],
         [''.change .number'', ''.percentage-change''])
      else
        ([''.price'', ''.current-price'', ''.last-price'', ''.ltp''],
         [''.change'', ''.percentage'', ''.change-percent'']))"

text \<open>
  The two selector loops. An exception inside the \<open>try\<close> of an iteration is caught and the
  loop continues, as when no element matches.
\<close>

fun bs_price_loop :: "document \<Rightarrow> string list \<Rightarrow> observation \<Rightarrow> observation" where
  "bs_price_loop doc [] data = data"
| "bs_price_loop doc (selector # rest) data =
     (case select_one doc selector of
        None \<Rightarrow> bs_price_loop doc rest data
      | Some txt \<Rightarrow>
          (case clean_number txt of
             None \<Rightarrow> bs_price_loop doc rest data
           | Some price \<Rightarrow>
               if truthy (Some price) \<and> price > 0
               then data\<lparr>observation.current_price := Some (Some price)\<rparr>
               else bs_price_loop doc rest data))"

fun bs_change_loop :: "document \<Rightarrow> string list \<Rightarrow> observation \<Rightarrow> observation" where
  "bs_change_loop doc [] data = data"
| "bs_change_loop doc (selector # rest) data =
     (case select_one doc selector of
        None \<Rightarrow> bs_change_loop doc rest data
      | Some txt \<Rightarrow>
          (case extract_percentage txt of
             None \<Rightarrow> bs_change_loop doc rest data
           | Some change \<Rightarrow> data\<lparr>observation.change_percent := Some (Some change)\<rparr>))"

definition new_observation :: "string option \<Rightarrow> observation" where
  \<comment> \<open>the dict \<open>{'source': source}\<close>, or \<open>{}\<close> for \<open>None\<close>\<close>
  "new_observation src =
     \<lparr>observation.source = src, observation.url = None,
      observation.current_price = None, observation.change_percent = None,
      observation.day_high = None, observation.day_low = None\<rparr>"

definition extract_with_beautifulsoup ::
  "document \<Rightarrow> string \<Rightarrow> string \<Rightarrow> observation option" where
  "extract_with_beautifulsoup soup src symbol' =
     (let data = new_observation (Some src);
          (price_selectors, change_selectors) = selectors src;
          data = bs_price_loop soup price_selectors data;
          data = bs_change_loop soup change_selectors data
      in if observation.current_price data \<noteq> None then Some data else None)"

subsection \<open>\<open>_extract_with_regex\<close>\<close>

fun price_matches_loop :: "pystr list \<Rightarrow> observation \<Rightarrow> observation" where
  "price_matches_loop [] data = data"
| "price_matches_loop (match # rest) data =
     (case clean_number match of
        None \<Rightarrow> price_matches_loop rest data
      | Some price \<Rightarrow>
          if truthy (Some price) \<and> 1 \<le> price \<and> price \<le> 100000
          then data\<lparr>observation.current_price := Some (Some price)\<rparr>
          else price_matches_loop rest data)"

fun price_patterns_loop :: "document \<Rightarrow> pattern list \<Rightarrow> observation \<Rightarrow> observation" where
  "price_patterns_loop doc [] data = data"
| "price_patterns_loop doc (p # rest) data =
     (let data = price_matches_loop (findall doc p) data
      in if observation.current_price data \<noteq> None then data
         else price_patterns_loop doc rest data)"

fun percent_matches_loop :: "pystr list \<Rightarrow> observation \<Rightarrow> observation" where
  "percent_matches_loop [] data = data"
| "percent_matches_loop (match # rest) data =
     (case py_float match of
        None \<Rightarrow> percent_matches_loop rest data
      | Some change \<Rightarrow>
          if - 50 \<le> change \<and> change \<le> 50
          then data\<lparr>observation.change_percent := Some (Some change)\<rparr>
          else percent_matches_loop rest data)"

fun percent_patterns_loop :: "document \<Rightarrow> pattern list \<Rightarrow> observation \<Rightarrow> observation" where
  "percent_patterns_loop doc [] data = data"
| "percent_patterns_loop doc (p # rest) data =
     (let data = percent_matches_loop (findall doc p) data
      in if observation.change_percent data \<noteq> None then data
         else percent_patterns_loop doc rest data)"

definition extract_with_regex :: "document \<Rightarrow> string \<Rightarrow> string \<Rightarrow> observation option" where
  "extract_with_regex html_content src symbol' =
     (let data = new_observation (Some src);
          price_patterns = [RupeeSign, RsPrefix, QuotedPrice, CurrentLabel, LastLabel];
          data = price_patterns_loop html_content price_patterns data;
          percent_patterns = [Percent, ChangePercent];
          data = percent_patterns_loop html_content percent_patterns data
      in if observation.current_price data \<noteq> None then Some data else None)"

subsection \<open>\<open>_scrape_single_source\<close> and \<open>scrape_stock_data\<close>\<close>

text \<open>
  \<open>web u\<close> is the page behind the URL \<open>u\<close>, \<open>None\<close> when the request fails. \<open>bs4\<close> tells
  whether BeautifulSoup can be imported; without it the regex routine runs. The caller's
  test \<open>if data\<close> holds for every dict a routine returns, since the dict has the key
  \<open>source\<close>; only \<open>None\<close> is skipped.
\<close>

definition scrape_single_source ::
  "bool \<Rightarrow> (string \<Rightarrow> document option) \<Rightarrow> url_info \<Rightarrow> string \<Rightarrow> observation option" where
  "scrape_single_source bs4 web ui symbol' =
     (case web (url_info.url ui) of
        None \<Rightarrow> None
      | Some page \<Rightarrow>
          if bs4 then extract_with_beautifulsoup page (url_info.source ui) symbol'
          else extract_with_regex page (url_info.source ui) symbol')"

fun scrape_loop ::
  "bool \<Rightarrow> (string \<Rightarrow> document option) \<Rightarrow> url_info list \<Rightarrow> string \<Rightarrow> observation list" where
  "scrape_loop bs4 web [] symbol' = []"
| "scrape_loop bs4 web (ui # rest) symbol' =
     (case scrape_single_source bs4 web ui symbol' of
        None \<Rightarrow> scrape_loop bs4 web rest symbol'
      | Some data \<Rightarrow> data # scrape_loop bs4 web rest symbol')"

definition scrape_stock_data ::
  "string \<Rightarrow> bool \<Rightarrow> (string \<Rightarrow> document option) \<Rightarrow> url_info list \<Rightarrow> string \<Rightarrow> string \<Rightarrow> quote" where
  "scrape_stock_data now bs4 web search_urls symbol' company_name' =
     (let scraped_data = scrape_loop bs4 web (take 3 search_urls) symbol'
      in consolidate_data now scraped_data symbol' company_name')"

section \<open>Extraction, stock-scraper.py\<close>

text \<open>
  Every routine of this file starts from the empty dict and ends with
  \<open>return data if data else None\<close>: it returns the dict when at least one key was stored.
\<close>

definition data_if_data :: "observation \<Rightarrow> observation option" where
  "data_if_data data = (if data = new_observation None then None else Some data)"

subsection \<open>\<open>_scrape_moneycontrol\<close>\<close>

fun mc_price_loop :: "document \<Rightarrow> string list \<Rightarrow> observation \<Rightarrow> observation" where
  "mc_price_loop soup [] data = data"
| "mc_price_loop soup (selector # rest) data =
     (case select_one soup selector of
        None \<Rightarrow> mc_price_loop soup rest data
      | Some txt \<Rightarrow>
          (let price_text = clean_number txt
           in if truthy price_text
              then data\<lparr>observation.current_price := Some price_text\<rparr>
              else mc_price_loop soup rest data))"

fun mc_change_loop :: "document \<Rightarrow> string list \<Rightarrow> observation \<Rightarrow> observation" where
  "mc_change_loop soup [] data = data"
| "mc_change_loop soup (selector # rest) data =
     (case select_one soup selector of
        None \<Rightarrow> mc_change_loop soup rest data
      | Some txt \<Rightarrow>
          (let change_text = extract_percentage txt
           in if truthy change_text
              then data\<lparr>observation.change_percent := Some change_text\<rparr>
              else mc_change_loop soup rest data))"

definition scrape_moneycontrol :: "document \<Rightarrow> string \<Rightarrow> observation option" where
  "scrape_moneycontrol soup symbol' =
     (let data = new_observation None;
          price_selectors =
            [''.pcnstkprc'', ''.prc_flot'', ''.FL .gD_12'', attr ''data-field'' ''last_price'',
             ''.prc''];
          data = mc_price_loop soup price_selectors data;
          change_selectors =
            [''.gD_12 .FL'', ''.prcntchng'', attr ''data-field'' ''percentage_change''];
          data = mc_change_loop soup change_selectors data;
          data =
            (case select_one soup (attr ''data-field'' ''day_high'' @ '', .dayrangetd .FL'') of
               None \<Rightarrow> data
             | Some txt \<Rightarrow> data\<lparr>observation.day_high := Some (clean_number txt)\<rparr>);
          data =
            (case select_one soup (attr ''data-field'' ''day_low'' @ '', .dayrangetd .FR'') of
               None \<Rightarrow> data
             | Some txt \<Rightarrow> data\<lparr>observation.day_low := Some (clean_number txt)\<rparr>)
      in data_if_data data)"

subsection \<open>\<open>_scrape_yahoo_finance\<close>\<close>

definition scrape_yahoo_finance :: "document \<Rightarrow> string \<Rightarrow> observation option" where
  "scrape_yahoo_finance soup symbol' =
     (let data = new_observation None;
          price_elem =
            select_one soup (''[data-symbol] .Fw'' @ esc ''b'' @ '' .Fz'' @ esc ''36px'');
          price_elem =
            (if price_elem = None
             then select_one soup (''.D'' @ esc ''ib'' @ '' .Fw'' @ esc ''b'' @ '' .Fz'' @ esc ''36px'')
             else price_elem);
          price_elem =
            (if price_elem = None then select_one soup (attr ''data-test'' ''qsp-price'')
             else price_elem);
          data =
            (case price_elem of
               None \<Rightarrow> data
             | Some txt \<Rightarrow> data\<lparr>observation.current_price := Some (clean_number txt)\<rparr>);
          data =
            (case select_one soup (attr ''data-test'' ''qsp-price-change-percent'') of
               None \<Rightarrow> data
             | Some txt \<Rightarrow> data\<lparr>observation.change_percent := Some (extract_percentage txt)\<rparr>)
      in data_if_data data)"

subsection \<open>\<open>_scrape_nse\<close>\<close>

text \<open>
  The body of the \<open>try\<close> for one parsed dict: each key that is present is converted by
  \<open>float\<close> and stored. The result is paired with \<open>True\<close> when the body reaches \<open>break\<close>, and
  with \<open>False\<close> when \<open>float\<close> raises; what was stored before stays in the dict.
\<close>

fun nse_fields ::
  "(string \<times> real option) list \<Rightarrow> (string \<times> (real \<Rightarrow> observation \<Rightarrow> observation)) list \<Rightarrow>
     observation \<Rightarrow> observation \<times> bool" where
  "nse_fields json_data [] data = (data, True)"
| "nse_fields json_data ((k, store) # rest) data =
     (case map_of json_data k of
        None \<Rightarrow> nse_fields json_data rest data
      | Some None \<Rightarrow> (data, False)
      | Some (Some x) \<Rightarrow> nse_fields json_data rest (store x data))"

definition nse_keys :: "(string \<times> (real \<Rightarrow> observation \<Rightarrow> observation)) list" where
  "nse_keys =
     [(''lastPrice'', \<lambda>x d. d\<lparr>observation.current_price := Some (Some x)\<rparr>),
      (''pChange'', \<lambda>x d. d\<lparr>observation.change_percent := Some (Some x)\<rparr>),
      (''dayHigh'', \<lambda>x d. d\<lparr>observation.day_high := Some (Some x)\<rparr>),
      (''dayLow'', \<lambda>x d. d\<lparr>observation.day_low := Some (Some x)\<rparr>)]"

fun nse_scripts :: "script list \<Rightarrow> observation \<Rightarrow> observation" where
  "nse_scripts [] data = data"
| "nse_scripts (NoLastPrice # rest) data = nse_scripts rest data"
| "nse_scripts (NoJson # rest) data = nse_scripts rest data"
| "nse_scripts (Json json_data # rest) data =
     (case nse_fields json_data nse_keys data of
        (data, True) \<Rightarrow> data
      | (data, False) \<Rightarrow> nse_scripts rest data)"

definition scrape_nse :: "document \<Rightarrow> string \<Rightarrow> observation option" where
  "scrape_nse soup symbol' = data_if_data (nse_scripts (scripts soup) (new_observation None))"

subsection \<open>\<open>_scrape_economic_times\<close>\<close>

definition scrape_economic_times :: "document \<Rightarrow> string \<Rightarrow> observation option" where
  "scrape_economic_times soup symbol' =
     (let data = new_observation None;
          data =
            (case select_one soup ''.price .number'' of
               None \<Rightarrow> data
             | Some txt \<Rightarrow> data\<lparr>observation.current_price := Some (clean_number txt)\<rparr>);
          data =
            (case select_one soup ''.change .number'' of
               None \<Rightarrow> data
             | Some txt \<Rightarrow> data\<lparr>observation.change_percent := Some (extract_percentage txt)\<rparr>)
      in data_if_data data)"

subsection \<open>\<open>_scrape_generic_financial_site\<close>\<close>

text \<open>
  The price loops are the code of \<open>_extract_with_regex\<close> again, over other patterns. The
  percentage is \<open>float(percent_matches[0])\<close>, stored as it is; \<open>Inl ValueError\<close> is the
  exception \<open>float\<close> raises when it cannot parse the match.
\<close>

definition scrape_generic_financial_site ::
  "document \<Rightarrow> string \<Rightarrow> error + observation option" where
  "scrape_generic_financial_site soup symbol' =
     (let data = new_observation None;
          price_patterns = [RupeeSign, RsPrefix, PriceLabel, RupeesSuffix];
          data = price_patterns_loop soup price_patterns data;
          percent_matches = findall soup Percent
      in case percent_matches of
           [] \<Rightarrow> Inr (data_if_data data)
         | match # _ \<Rightarrow>
             (case py_float match of
                None \<Rightarrow> Inl ValueError
              | Some change \<Rightarrow>
                  Inr (data_if_data (data\<lparr>observation.change_percent := Some (Some change)\<rparr>))))"

subsection \<open>\<open>_scrape_financial_site\<close> and \<open>search_and_scrape_stock_data\<close>\<close>

text \<open>
  \<open>web u\<close> is \<open>None\<close> when the request fails or answers with an error status; that
  exception and the \<open>ValueError\<close> of the generic routine are caught here and give \<open>None\<close>.
  The caller's test \<open>if data\<close> holds for every dict a routine returns, which is never
  empty; only \<open>None\<close> is skipped.
\<close>

definition scrape_financial_site ::
  "(string \<Rightarrow> document option) \<Rightarrow> string \<Rightarrow> string \<Rightarrow> observation option" where
  "scrape_financial_site web u symbol' =
     (case web u of
        None \<Rightarrow> None
      | Some soup \<Rightarrow>
          if contains ''moneycontrol.com'' u then scrape_moneycontrol soup symbol'
          else if contains ''yahoo.com'' u then scrape_yahoo_finance soup symbol'
          else if contains ''nseindia.com'' u then scrape_nse soup symbol'
          else if contains ''economictimes.indiatimes.com'' u then scrape_economic_times soup symbol'
          else (case scrape_generic_financial_site soup symbol' of
                  Inl e \<Rightarrow> None
                | Inr r \<Rightarrow> r))"

fun search_and_scrape_loop ::
  "(string \<Rightarrow> document option) \<Rightarrow> url_info list \<Rightarrow> string \<Rightarrow> observation list" where
  "search_and_scrape_loop web [] symbol' = []"
| "search_and_scrape_loop web (ui # rest) symbol' =
     (case scrape_financial_site web (url_info.url ui) symbol' of
        None \<Rightarrow> search_and_scrape_loop web rest symbol'
      | Some data \<Rightarrow>
          data\<lparr>observation.source := Some (url_info.source ui),
               observation.url := Some (url_info.url ui)\<rparr>
          # search_and_scrape_loop web rest symbol')"

definition search_and_scrape_stock_data ::
  "string \<Rightarrow> (string \<Rightarrow> document option) \<Rightarrow> url_info list \<Rightarrow> string \<Rightarrow> string \<Rightarrow> quote" where
  "search_and_scrape_stock_data now web search_urls symbol' company_name' =
     (let scraped_data = search_and_scrape_loop web search_urls symbol'
      in consolidate_stock_data now scraped_data symbol' company_name')"

section \<open>The specification's notions\<close>

text \<open>
  The consensus value of the specification: the element at the zero-based index
  \<open>floor(count/2)\<close> of the ascending sort of the values, and 0 when there is no value.
\<close>

definition spec_consensus :: "real list \<Rightarrow> real" where
  "spec_consensus vals = (if vals = [] then 0 else sort vals ! (length vals div 2))"

text \<open>The quality tier of the specification, from the number of observations.\<close>

definition spec_quality :: "nat \<Rightarrow> string" where
  "spec_quality n = (if n \<ge> 3 then ''high'' else if n = 2 then ''medium'' else ''low'')"

text \<open>
  A numeric residue, for a string without a plus sign: an optional minus sign, then
  digits with at most one dot among them and at least one digit.
\<close>

definition spec_numeric :: "pystr \<Rightarrow> bool" where
  "spec_numeric s =
     (let body = (case s of [] \<Rightarrow> [] | c # r \<Rightarrow> if c = 45 then r else s)
      in list_all (\<lambda>c. is_digit c \<or> c = 46) body \<and>
         length (filter (\<lambda>c. c = 46) body) \<le> 1 \<and>
         filter is_digit body \<noteq> [])"


section \<open>Example inputs\<close>

definition priced :: "string \<Rightarrow> real \<Rightarrow> observation" where
  \<comment> \<open>the dict \<open>{'source': src, 'current_price': p}\<close>\<close>
  "priced src p = (new_observation (Some src))\<lparr>observation.current_price := Some (Some p)\<rparr>"

definition with_change :: "real \<Rightarrow> observation \<Rightarrow> observation" where
  "with_change x d = d\<lparr>observation.change_percent := Some (Some x)\<rparr>"


definition all_zero :: "string \<Rightarrow> observation" where
  \<comment> \<open>a dict whose four numeric keys all hold 0.0\<close>
  "all_zero src =
     \<lparr>observation.source = Some src, observation.url = None,
      observation.current_price = Some (Some 0), observation.change_percent = Some (Some 0),
      observation.day_high = Some (Some 0), observation.day_low = Some (Some 0)\<rparr>"

definition page :: "(string \<times> string) list \<Rightarrow> (pattern \<times> string list) list \<Rightarrow> document" where
  \<comment> \<open>a page with the given element texts by selector and regex matches by pattern, and no script\<close>
  "page elements matches =
     \<lparr>select_one = (\<lambda>sel. map_option ascii (map_of elements sel)),
      scripts = [],
      findall = (\<lambda>p. case map_of matches p of None \<Rightarrow> [] | Some ms \<Rightarrow> map ascii ms)\<rparr>"

definition web_of :: "(url_info \<times> document) list \<Rightarrow> string \<Rightarrow> document option" where
  \<comment> \<open>a web where the listed URLs answer with the listed pages\<close>
  "web_of pages = map_of (map (\<lambda>(ui, doc). (url_info.url ui, doc)) pages)"

definition moneycontrol_tcs :: url_info where
  "moneycontrol_tcs =
     \<lparr>url = ''https://www.moneycontrol.com/india/stockpricequote/tcs'', source = ''MoneyControl''\<rparr>"

definition livemint_news :: url_info where
  "livemint_news =
     \<lparr>url = ''https://www.livemint.com/market/stock-market-news'', source = ''LiveMint''\<rparr>"

definition change_only_page :: document where
  \<comment> \<open>only the element of class \<open>prcntchng\<close> exists\<close>
  "change_only_page = page [(''.prcntchng'', ''+2.5%'')] []"

definition negative_price_page :: document where
  \<comment> \<open>the element of class \<open>pcnstkprc\<close> reads \<open>-5.00\<close>\<close>
  "negative_price_page = page [(''.pcnstkprc'', ''-5.00'')] []"

definition quoted_page :: document where
  \<comment> \<open>a price and a change, as elements and as matches of the text\<close>
  "quoted_page =
     page [(''.pcnstkprc'', ''3,456.70''), (''.prcntchng'', ''-1.2%''), (''.price'', ''3,456.70'')]
          [(RupeeSign, [''3,456.70'']), (Percent, [''-1.2''])]"

definition percent_75_page :: document where
  \<comment> \<open>a page whose text holds a price in rupees and \<open>75%\<close>\<close>
  "percent_75_page = page [] [(RupeeSign, [''3,456.70'']), (Percent, [''75''])]"

section \<open>The consolidators, field by field\<close>

lemma sorted_middle_consensus: "xs \<noteq> [] \<Longrightarrow> sorted_middle xs = spec_consensus xs"
  by (simp add: sorted_middle_def spec_consensus_def)

lemma set_quality_fields:
  "quote.current_price (set_quality ds q) = quote.current_price q"
  "quote.change_percent (set_quality ds q) = quote.change_percent q"
  "quote.day_high (set_quality ds q) = quote.day_high q"
  "quote.day_low (set_quality ds q) = quote.day_low q"
  "quote.volume (set_quality ds q) = quote.volume q"
  "quote.sources (set_quality ds q) = quote.sources q"
  by (simp_all add: set_quality_def)

lemma set_quality_tier:
  "quote.data_quality q = ''low'' \<Longrightarrow>
     quote.data_quality (set_quality ds q) = spec_quality (length ds)"
  by (simp add: set_quality_def spec_quality_def)

lemma csd_price:
  "quote.current_price (consolidate_stock_data now ds s c) =
     spec_consensus (collect observation.current_price ds)"
  by (cases "ds = []")
     (simp_all add: consolidate_stock_data_def Let_def set_quality_fields initial_quote_def
        sorted_middle_consensus spec_consensus_def)

lemma csd_change:
  "quote.change_percent (consolidate_stock_data now ds s c) =
     spec_consensus (collect observation.change_percent ds)"
  by (cases "ds = []")
     (simp_all add: consolidate_stock_data_def Let_def set_quality_fields initial_quote_def
        sorted_middle_consensus spec_consensus_def)

lemma csd_high:
  "quote.day_high (consolidate_stock_data now ds s c) =
     spec_consensus (collect observation.day_high ds)"
  by (cases "ds = []")
     (simp_all add: consolidate_stock_data_def Let_def set_quality_fields initial_quote_def
        sorted_middle_consensus spec_consensus_def)

lemma csd_low:
  "quote.day_low (consolidate_stock_data now ds s c) =
     spec_consensus (collect observation.day_low ds)"
  by (cases "ds = []")
     (simp_all add: consolidate_stock_data_def Let_def set_quality_fields initial_quote_def
        sorted_middle_consensus spec_consensus_def)

lemma csd_volume: "quote.volume (consolidate_stock_data now ds s c) = 0"
  by (simp add: consolidate_stock_data_def Let_def set_quality_fields initial_quote_def)

lemma csd_sources: "quote.sources (consolidate_stock_data now ds s c) = map get_source ds"
  by (cases "ds = []")
     (simp_all add: consolidate_stock_data_def Let_def set_quality_fields initial_quote_def)

lemma csd_quality:
  "quote.data_quality (consolidate_stock_data now ds s c) = spec_quality (length ds)"
  by (cases "ds = []")
     (simp_all add: consolidate_stock_data_def Let_def set_quality_tier initial_quote_def
        spec_quality_def)

lemma cd_price:
  "quote.current_price (consolidate_data now ds s c) =
     spec_consensus (collect observation.current_price ds)"
  by (cases "ds = []")
     (simp_all add: consolidate_data_def Let_def set_quality_fields initial_quote_def
        sorted_middle_consensus spec_consensus_def)

lemma cd_change:
  "quote.change_percent (consolidate_data now ds s c) =
     spec_consensus (collect observation.change_percent ds)"
  by (cases "ds = []")
     (simp_all add: consolidate_data_def Let_def set_quality_fields initial_quote_def
        sorted_middle_consensus spec_consensus_def)


lemma cd_sources: "quote.sources (consolidate_data now ds s c) = map get_source ds"
  by (cases "ds = []")
     (simp_all add: consolidate_data_def Let_def set_quality_fields initial_quote_def)

lemma cd_quality:
  "quote.data_quality (consolidate_data now ds s c) = spec_quality (length ds)"
  by (cases "ds = []")
     (simp_all add: consolidate_data_def Let_def set_quality_tier initial_quote_def
        spec_quality_def)

lemma collect_append: "collect key (xs @ ys) = collect key xs @ collect key ys"
  by (induction xs) (auto split: option.splits)

lemma collect_zero:
  "py_get (key d) = Some 0 \<Longrightarrow> collect key (xs @ d # ys) = collect key (xs @ ys)"
  by (simp add: collect_append truthy_def)

lemma collect_priced:
  "collect observation.current_price (priced src p # ds) =
     (if p = 0 then collect observation.current_price ds
      else p # collect observation.current_price ds)"
  by (simp add: priced_def new_observation_def py_get_def truthy_def)

lemma collect_other_priced:
  "collect observation.change_percent (priced src p # ds) = collect observation.change_percent ds"
  "collect observation.day_high (priced src p # ds) = collect observation.day_high ds"
  "collect observation.day_low (priced src p # ds) = collect observation.day_low ds"
  by (simp_all add: priced_def new_observation_def py_get_def truthy_def)

section \<open>The claims about the consolidators\<close>

text \<open>
  Claim C2, as the code has it. For observations whose prices are 100 and 200 the
  consensus price of both consolidators is 200, the element at index \<open>floor(2/2) = 1\<close>
  (neither the lower of the two middle values, 100, nor the average 150); for prices 100,
  200 and 300 it is the median 200.
\<close>

theorem consensus_of_two_and_three_prices:
  "(collect observation.current_price ds = [100, 200] \<longrightarrow>
      quote.current_price (consolidate_stock_data now ds s c) = 200 \<and>
      quote.current_price (consolidate_data now ds s c) = 200) \<and>
   (collect observation.current_price ds' = [100, 200, 300] \<longrightarrow>
      quote.current_price (consolidate_stock_data now ds' s c) = 200 \<and>
      quote.current_price (consolidate_data now ds' s c) = 200)"
  by (simp add: csd_price cd_price spec_consensus_def)

theorem consensus_of_two_and_three_prices_witness:
  "collect observation.current_price
     [priced ''MoneyControl'' 100, priced ''Yahoo Finance'' 200] = [100, 200] \<and>
   quote.current_price
     (consolidate_stock_data ''2024-01-01T00:00:00''
        [priced ''MoneyControl'' 100, priced ''Yahoo Finance'' 200] ''TCS'' ''Tata'') = 200 \<and>
   quote.current_price
     (consolidate_data ''2024-01-01T00:00:00''
        [priced ''MoneyControl'' 100, priced ''Yahoo Finance'' 200] ''TCS'' ''Tata'') = 200 \<and>
   collect observation.current_price
     [priced ''MoneyControl'' 100, priced ''Yahoo Finance'' 200, priced ''NSE India'' 300] =
     [100, 200, 300] \<and>
   quote.current_price
     (consolidate_stock_data ''2024-01-01T00:00:00''
        [priced ''MoneyControl'' 100, priced ''Yahoo Finance'' 200, priced ''NSE India'' 300]
        ''TCS'' ''Tata'') = 200 \<and>
   quote.current_price
     (consolidate_data ''2024-01-01T00:00:00''
        [priced ''MoneyControl'' 100, priced ''Yahoo Finance'' 200, priced ''NSE India'' 300]
        ''TCS'' ''Tata'') = 200"
  using consensus_of_two_and_three_prices
    [of "[priced ''MoneyControl'' 100, priced ''Yahoo Finance'' 200]"
        "''2024-01-01T00:00:00''" "''TCS''" "''Tata''"
        "[priced ''MoneyControl'' 100, priced ''Yahoo Finance'' 200, priced ''NSE India'' 300]"]
  by (simp add: collect_priced del: collect.simps(2))

text \<open>
  The claim as stated fails: for the prices 100 and 200 the consolidators return 200, not
  100.
\<close>

theorem two_prices_not_lower_median:
  "quote.current_price
     (consolidate_stock_data ''2024-01-01T00:00:00''
        [priced ''MoneyControl'' 100, priced ''Yahoo Finance'' 200] ''TCS'' ''Tata'') \<noteq> 100 \<and>
   quote.current_price
     (consolidate_data ''2024-01-01T00:00:00''
        [priced ''MoneyControl'' 100, priced ''Yahoo Finance'' 200] ''TCS'' ''Tata'') \<noteq> 100"
  by (simp add: csd_price cd_price spec_consensus_def collect_priced del: collect.simps(2))

text \<open>
  Claim C4. Given the empty observation list, both consolidators return a quote (they
  cannot fail) in which \<open>current_price\<close>, \<open>change_percent\<close>, \<open>day_high\<close>, \<open>day_low\<close> and
  \<open>volume\<close> are 0, \<open>sources\<close> is the empty list and \<open>data_quality\<close> is \<open>low\<close>.
\<close>

theorem empty_list_gives_zero_quote:
  "consolidate_stock_data now [] s c =
     \<lparr>symbol = s, company_name = c, current_price = 0, change_percent = 0, day_high = 0,
      day_low = 0, volume = 0, last_updated = now, sources = [], data_quality = ''low''\<rparr> \<and>
   consolidate_data now [] s c =
     \<lparr>symbol = s, company_name = c, current_price = 0, change_percent = 0, day_high = 0,
      day_low = 0, volume = 0, last_updated = now, sources = [], data_quality = ''low''\<rparr>"
  by (simp add: consolidate_stock_data_def consolidate_data_def initial_quote_def)

text \<open>
  Claim C5. For every observation list, the \<open>data_quality\<close> of both consolidators is
  determined by the number of observations alone: \<open>high\<close> for 3 or more, \<open>medium\<close> for
  exactly 2, \<open>low\<close> for 1 and 0.
\<close>

theorem quality_from_count:
  "quote.data_quality (consolidate_stock_data now ds s c) =
     (if length ds \<ge> 3 then ''high'' else if length ds = 2 then ''medium'' else ''low'') \<and>
   quote.data_quality (consolidate_data now ds s c) =
     (if length ds \<ge> 3 then ''high'' else if length ds = 2 then ''medium'' else ''low'')"
  by (simp add: csd_quality cd_quality spec_quality_def)

text \<open>
  Claim C10. In both consolidators an observation whose value for a field is exactly 0 is
  left out of that field's consensus, which is the consensus of the list without that
  observation, while its source name is still listed in \<open>sources\<close> and it still counts for
  \<open>data_quality\<close>.
\<close>

theorem zero_valued_field_is_skipped:
  "(py_get (observation.current_price d) = Some 0 \<longrightarrow>
      quote.current_price (consolidate_stock_data now (xs @ d # ys) s c) =
        quote.current_price (consolidate_stock_data now (xs @ ys) s c) \<and>
      quote.current_price (consolidate_data now (xs @ d # ys) s c) =
        quote.current_price (consolidate_data now (xs @ ys) s c)) \<and>
   (py_get (observation.change_percent d) = Some 0 \<longrightarrow>
      quote.change_percent (consolidate_stock_data now (xs @ d # ys) s c) =
        quote.change_percent (consolidate_stock_data now (xs @ ys) s c) \<and>
      quote.change_percent (consolidate_data now (xs @ d # ys) s c) =
        quote.change_percent (consolidate_data now (xs @ ys) s c)) \<and>
   (py_get (observation.day_high d) = Some 0 \<longrightarrow>
      quote.day_high (consolidate_stock_data now (xs @ d # ys) s c) =
        quote.day_high (consolidate_stock_data now (xs @ ys) s c)) \<and>
   (py_get (observation.day_low d) = Some 0 \<longrightarrow>
      quote.day_low (consolidate_stock_data now (xs @ d # ys) s c) =
        quote.day_low (consolidate_stock_data now (xs @ ys) s c)) \<and>
   quote.sources (consolidate_stock_data now (xs @ d # ys) s c) =
     map get_source xs @ get_source d # map get_source ys \<and>
   quote.sources (consolidate_data now (xs @ d # ys) s c) =
     map get_source xs @ get_source d # map get_source ys \<and>
   quote.data_quality (consolidate_stock_data now (xs @ d # ys) s c) =
     spec_quality (Suc (length xs + length ys)) \<and>
   quote.data_quality (consolidate_data now (xs @ d # ys) s c) =
     spec_quality (Suc (length xs + length ys))"
  by (simp add: csd_price csd_change csd_high csd_low cd_price cd_change csd_sources cd_sources
      csd_quality cd_quality collect_zero)

theorem zero_valued_field_is_skipped_witness:
  "py_get (observation.current_price (all_zero ''Yahoo Finance'')) = Some 0 \<and>
   py_get (observation.change_percent (all_zero ''Yahoo Finance'')) = Some 0 \<and>
   py_get (observation.day_high (all_zero ''Yahoo Finance'')) = Some 0 \<and>
   py_get (observation.day_low (all_zero ''Yahoo Finance'')) = Some 0 \<and>
   quote.change_percent
     (consolidate_stock_data ''2024-01-01T00:00:00''
        ([with_change (5 / 2) (priced ''MoneyControl'' 100)] @ all_zero ''Yahoo Finance'' #
         [with_change (7 / 2) (priced ''NSE India'' 300)]) ''TCS'' ''Tata'') =
   quote.change_percent
     (consolidate_stock_data ''2024-01-01T00:00:00''
        ([with_change (5 / 2) (priced ''MoneyControl'' 100)] @
         [with_change (7 / 2) (priced ''NSE India'' 300)]) ''TCS'' ''Tata'') \<and>
   quote.sources
     (consolidate_stock_data ''2024-01-01T00:00:00''
        ([with_change (5 / 2) (priced ''MoneyControl'' 100)] @ all_zero ''Yahoo Finance'' #
         [with_change (7 / 2) (priced ''NSE India'' 300)]) ''TCS'' ''Tata'') =
     [''MoneyControl'', ''Yahoo Finance'', ''NSE India''] \<and>
   quote.data_quality
     (consolidate_stock_data ''2024-01-01T00:00:00''
        ([with_change (5 / 2) (priced ''MoneyControl'' 100)] @ all_zero ''Yahoo Finance'' #
         [with_change (7 / 2) (priced ''NSE India'' 300)]) ''TCS'' ''Tata'') = ''high''"
  using zero_valued_field_is_skipped
    [of "all_zero ''Yahoo Finance''" "''2024-01-01T00:00:00''"
        "[with_change (5 / 2) (priced ''MoneyControl'' 100)]"
        "[with_change (7 / 2) (priced ''NSE India'' 300)]" "''TCS''" "''Tata''"]
  by (simp add: all_zero_def py_get_def get_source_def with_change_def priced_def
      new_observation_def spec_quality_def)

section \<open>The text normalizer\<close>

lemma todecimal_low:
  "c < 1632 \<Longrightarrow> todecimal c = (if 48 \<le> c \<and> c < 58 then Some (c - 48) else None)"
  by (simp add: todecimal_def decimal_starts_def)

lemma is_digit_low: "c < 1632 \<Longrightarrow> is_digit c = (48 \<le> c \<and> c < 58)"
  by (simp add: is_digit_def todecimal_low)

lemma not_digit_rupee: "\<not> is_digit 8377"
  by (simp add: is_digit_def todecimal_def decimal_starts_def)

lemma not_digit_punct [simp]:
  "\<not> is_digit 37" "\<not> is_digit 43" "\<not> is_digit 44" "\<not> is_digit 45" "\<not> is_digit 46"
  by (simp_all add: is_digit_low)

lemma digit_not_punct: "is_digit c \<Longrightarrow> c \<noteq> 43 \<and> c \<noteq> 45 \<and> c \<noteq> 46 \<and> c \<noteq> 37 \<and> c \<noteq> 44"
  by auto

lemma float_body_digits:
  "list_all is_digit ip \<Longrightarrow> float_body ip = (if ip = [] then None else Some (real (digits_value 0 ip)))"
proof -
  assume "list_all is_digit ip"
  then have tw: "takeWhile is_digit ip = ip" and dw: "dropWhile is_digit ip = []"
    by (simp_all add: list_all_iff)
  show ?thesis unfolding float_body_def tw dw by simp
qed



lemma float_body_numeric:
  "(float_body body \<noteq> None) =
     (list_all (\<lambda>c. is_digit c \<or> c = 46) body \<and>
      length (filter (\<lambda>c. c = 46) body) \<le> 1 \<and> filter is_digit body \<noteq> [])"
proof -
  define ip where "ip = takeWhile is_digit body"
  define rest where "rest = dropWhile is_digit body"
  have body: "body = ip @ rest" by (simp add: ip_def rest_def)
  have ip: "list_all is_digit ip" 
    by (simp add: ip_def list_all_iff) (meson set_takeWhileD)
  have fip: "filter is_digit ip = ip" "filter (\<lambda>c. c = 46) ip = []"
    using ip by (auto simp: list_all_iff filter_empty_conv)
  have ipd: "list_all (\<lambda>c. is_digit c \<or> c = 46) ip" using ip by (auto simp: list_all_iff)
  show ?thesis
  proof (cases rest)
    case Nil
    then show ?thesis using ip fip ipd by (simp add: body float_body_digits)
  next
    case (Cons c fp)
    have c: "\<not> is_digit c"
      using Cons hd_dropWhile[of is_digit body] by (auto simp: rest_def)
    have fb: "float_body body = (if c = 46 \<and> list_all is_digit fp \<and> \<not> (ip = [] \<and> fp = [])
             then Some (real (digits_value 0 ip) + real (digits_value 0 fp) / 10 ^ length fp)
             else None)"
      using Cons by (simp add: float_body_def ip_def[symmetric] rest_def[symmetric])
    show ?thesis
    proof (cases "c = 46")
      case False
      have "\<not> list_all (\<lambda>c. is_digit c \<or> c = 46) body"
        using False c by (simp add: body Cons)
      then show ?thesis using False by (simp add: fb)
    next
      case True
      have cnt: "(length (filter (\<lambda>c. c = 46) fp) = 0 \<and> list_all (\<lambda>c. is_digit c \<or> c = 46) fp) = list_all is_digit fp"
        by (induction fp) auto
      have dig: "list_all is_digit fp \<Longrightarrow> filter is_digit fp = fp"
        by (auto simp: list_all_iff)
      have "(list_all (\<lambda>c. is_digit c \<or> c = 46) body \<and>
          length (filter (\<lambda>c. c = 46) body) \<le> 1 \<and> filter is_digit body \<noteq> []) =
          (list_all is_digit fp \<and> \<not> (ip = [] \<and> fp = []))"
        using True cnt dig ipd fip by (auto simp add: body Cons)
      then show ?thesis using True by (simp add: fb)
    qed
  qed
qed


lemma residue_alphabet:
  "list_all (\<lambda>c. is_digit c \<or> c = 46 \<or> c = 45) (sub_non_numeric (replace_comma text))"
  by (simp add: sub_non_numeric_def keep_numeric_def list_all_iff)

lemma residue_no_plus: "43 \<notin> set (sub_non_numeric (replace_comma text))"
  by (auto simp add: sub_non_numeric_def keep_numeric_def)

lemma py_float_numeric: "43 \<notin> set s \<Longrightarrow> (py_float s \<noteq> None) = spec_numeric s"
proof (cases s)
  case Nil
  then show ?thesis by (simp add: py_float_def spec_numeric_def)
next
  case (Cons c r)
  assume "43 \<notin> set s"
  then have "c \<noteq> 43" using Cons by auto
  then show ?thesis
    using float_body_numeric[of r] float_body_numeric[of s]
    by (simp add: py_float_def spec_numeric_def Cons del: not_None_eq)
qed

lemma clean_number_numeric:
  "(clean_number text \<noteq> None) =
     (text \<noteq> [] \<and> spec_numeric (sub_non_numeric (replace_comma text)))"
  using py_float_numeric[OF residue_no_plus, of "text"]
  by (simp add: clean_number_def del: not_None_eq)

lemma residue_example:
  "sub_non_numeric (replace_comma (8377 # ascii ''1,23,456.78'')) = ascii ''123456.78''"
  by (simp add: ascii_def replace_comma_def sub_non_numeric_def keep_numeric_def
      is_digit_low not_digit_rupee)

lemma float_body_example: "float_body (ascii ''123456.78'') = Some (12345678 / 100)"
  by (simp add: ascii_def is_digit_low todecimal_low float_body_def)

lemma clean_number_example:
  "clean_number (8377 # ascii ''1,23,456.78'') = Some (12345678 / 100)"
  using float_body_example
  by (simp add: clean_number_def residue_example py_float_def) (simp add: ascii_def)










lemma percent_examples:
  "extract_percentage (ascii ''+2.5%'') = Some (5 / 2)"
  "extract_percentage (ascii ''-3.1%'') = Some (- (31 / 10))"
  by (simp_all add: extract_percentage_def ascii_def replace_percent_def number_at_def is_sign_def
      is_digit_low todecimal_low py_float_def float_body_def)

lemma clean_number_empty_residue: "clean_number (ascii ''Rs. N/A'') = None"
  by (simp add: clean_number_def ascii_def replace_comma_def sub_non_numeric_def keep_numeric_def
      is_digit_low py_float_def float_body_def)


text \<open>
  Claim C8. \<open>_clean_number\<close> removes the commas and every character that is not a digit, a
  dot or a minus sign, and parses what is left as a number: the rupee sign followed by
  \<open>1,23,456.78\<close> gives 123456.78. The result is none exactly when the text is empty or the
  residue is not numeric; the empty text and \<open>Rs. N/A\<close> give none.
\<close>

theorem clean_number_spec:
  "clean_number (8377 # ascii ''1,23,456.78'') = Some (12345678 / 100) \<and>
   clean_number [] = None \<and>
   clean_number (ascii ''Rs. N/A'') = None \<and>
   list_all (\<lambda>c. is_digit c \<or> c = 46 \<or> c = 45) (sub_non_numeric (replace_comma raw)) \<and>
   (clean_number raw = None) =
     (raw = [] \<or> \<not> spec_numeric (sub_non_numeric (replace_comma raw)))"
proof -
  have empty: "clean_number [] = None"
    by (simp add: clean_number_def)
  have none: "(clean_number raw = None) =
      (raw = [] \<or> \<not> spec_numeric (sub_non_numeric (replace_comma raw)))"
    using clean_number_numeric[of raw] by auto
  show ?thesis
    using clean_number_example clean_number_empty_residue empty residue_alphabet[of raw] none
    by blast
qed

theorem clean_number_spec_witness:
  "clean_number (ascii ''-5.00'') = Some (- 5) \<and>
   ascii ''-5.00'' \<noteq> [] \<and>
   spec_numeric (sub_non_numeric (replace_comma (ascii ''-5.00''))) \<and>
   list_all (\<lambda>c. is_digit c \<or> c = 46 \<or> c = 45)
     (sub_non_numeric (replace_comma (ascii ''-5.00'')))"
proof -
  have v: "clean_number (ascii ''-5.00'') = Some (- 5)"
    by (simp add: clean_number_def ascii_def replace_comma_def sub_non_numeric_def
        keep_numeric_def is_digit_low todecimal_low py_float_def float_body_def)
  have n: "ascii ''-5.00'' \<noteq> []"
    by (simp add: ascii_def)
  show ?thesis
    using clean_number_spec[of "ascii ''-5.00''"] v n by simp
qed




section \<open>The extraction routines\<close>

subsection \<open>What the loops store\<close>

lemma bs_change_loop_price:
  "observation.current_price (bs_change_loop doc sels data) = observation.current_price data"
  by (induction sels arbitrary: data) (auto split: option.splits)

lemma bs_price_loop_price:
  "observation.current_price data = None \<Longrightarrow>
     observation.current_price (bs_price_loop doc sels data) = None \<or>
     (\<exists>p. 0 < p \<and> observation.current_price (bs_price_loop doc sels data) = Some (Some p))"
  by (induction sels arbitrary: data) (auto split: option.splits)

lemma extract_with_beautifulsoup_price:
  assumes "extract_with_beautifulsoup doc src sy = Some d"
  shows "\<exists>p. 0 < p \<and> observation.current_price d = Some (Some p)"
proof -
  obtain ps cs where sel: "selectors src = (ps, cs)" by (cases "selectors src")
  define d1 where "d1 = bs_price_loop doc ps (new_observation (Some src))"
  have d: "d = bs_change_loop doc cs d1" and ne: "observation.current_price d \<noteq> None"
    using assms by (auto simp add: extract_with_beautifulsoup_def sel d1_def Let_def split: if_splits)
  have "observation.current_price d = observation.current_price d1"
    by (simp add: d bs_change_loop_price)
  moreover have "observation.current_price d1 = None \<or>
      (\<exists>p. 0 < p \<and> observation.current_price d1 = Some (Some p))"
    unfolding d1_def by (rule bs_price_loop_price) (simp add: new_observation_def)
  ultimately show ?thesis using ne by auto
qed

lemma price_matches_loop_price:
  "observation.current_price data = None \<or>
     (\<exists>p. 1 \<le> p \<and> p \<le> 100000 \<and> observation.current_price data = Some (Some p)) \<Longrightarrow>
   observation.current_price (price_matches_loop ms data) = None \<or>
     (\<exists>p. 1 \<le> p \<and> p \<le> 100000 \<and>
        observation.current_price (price_matches_loop ms data) = Some (Some p))"
  by (induction ms arbitrary: data) (auto split: option.splits)

lemma price_patterns_loop_price:
  "observation.current_price data = None \<or>
     (\<exists>p. 1 \<le> p \<and> p \<le> 100000 \<and> observation.current_price data = Some (Some p)) \<Longrightarrow>
   observation.current_price (price_patterns_loop doc ps data) = None \<or>
     (\<exists>p. 1 \<le> p \<and> p \<le> 100000 \<and>
        observation.current_price (price_patterns_loop doc ps data) = Some (Some p))"
proof (induction ps arbitrary: data)
  case Nil
  then show ?case by simp
next
  case (Cons a ps)
  show ?case
    using price_matches_loop_price[OF Cons.prems, of "findall doc a"]
      Cons.IH[of "price_matches_loop (findall doc a) data"]
    by (auto simp add: Let_def)
qed

lemma price_matches_loop_change:
  "observation.change_percent (price_matches_loop ms data) = observation.change_percent data"
  by (induction ms arbitrary: data) (auto split: option.splits)

lemma price_patterns_loop_change:
  "observation.change_percent (price_patterns_loop doc ps data) = observation.change_percent data"
  by (induction ps arbitrary: data) (auto simp add: Let_def price_matches_loop_change)

lemma percent_matches_loop_price:
  "observation.current_price (percent_matches_loop ms data) = observation.current_price data"
  by (induction ms arbitrary: data) (auto split: option.splits)

lemma percent_patterns_loop_price:
  "observation.current_price (percent_patterns_loop doc ps data) = observation.current_price data"
  by (induction ps arbitrary: data) (auto simp add: Let_def percent_matches_loop_price)

lemma percent_matches_loop_change:
  "observation.change_percent data = None \<or>
     (\<exists>c. - 50 \<le> c \<and> c \<le> 50 \<and> observation.change_percent data = Some (Some c)) \<Longrightarrow>
   observation.change_percent (percent_matches_loop ms data) = None \<or>
     (\<exists>c. - 50 \<le> c \<and> c \<le> 50 \<and>
        observation.change_percent (percent_matches_loop ms data) = Some (Some c))"
  by (induction ms arbitrary: data) (auto split: option.splits)

lemma percent_patterns_loop_change:
  "observation.change_percent data = None \<or>
     (\<exists>c. - 50 \<le> c \<and> c \<le> 50 \<and> observation.change_percent data = Some (Some c)) \<Longrightarrow>
   observation.change_percent (percent_patterns_loop doc ps data) = None \<or>
     (\<exists>c. - 50 \<le> c \<and> c \<le> 50 \<and>
        observation.change_percent (percent_patterns_loop doc ps data) = Some (Some c))"
proof (induction ps arbitrary: data)
  case Nil
  then show ?case by simp
next
  case (Cons a ps)
  show ?case
    using percent_matches_loop_change[OF Cons.prems, of "findall doc a"]
      Cons.IH[of "percent_matches_loop (findall doc a) data"]
    by (auto simp add: Let_def)
qed

lemma extract_with_regex_ranges:
  assumes "extract_with_regex doc src sy = Some d"
  shows "(\<exists>p. 1 \<le> p \<and> p \<le> 100000 \<and> observation.current_price d = Some (Some p)) \<and>
         (observation.change_percent d = None \<or>
          (\<exists>c. - 50 \<le> c \<and> c \<le> 50 \<and> observation.change_percent d = Some (Some c)))"
proof -
  define d1 where
    "d1 = price_patterns_loop doc [RupeeSign, RsPrefix, QuotedPrice, CurrentLabel, LastLabel]
            (new_observation (Some src))"
  have d: "d = percent_patterns_loop doc [Percent, ChangePercent] d1"
    and ne: "observation.current_price d \<noteq> None"
    using assms by (auto simp add: extract_with_regex_def d1_def Let_def split: if_splits)
  have p1: "observation.current_price d1 = None \<or>
      (\<exists>p. 1 \<le> p \<and> p \<le> 100000 \<and> observation.current_price d1 = Some (Some p))"
    unfolding d1_def by (rule price_patterns_loop_price) (simp add: new_observation_def)
  have c1: "observation.change_percent d1 = None"
    unfolding d1_def price_patterns_loop_change by (simp add: new_observation_def)
  have "observation.current_price d = observation.current_price d1"
    unfolding d by (rule percent_patterns_loop_price)
  then have price: "\<exists>p. 1 \<le> p \<and> p \<le> 100000 \<and> observation.current_price d = Some (Some p)"
    using p1 ne by auto
  have change: "observation.change_percent d = None \<or>
      (\<exists>c. - 50 \<le> c \<and> c \<le> 50 \<and> observation.change_percent d = Some (Some c))"
    unfolding d by (rule percent_patterns_loop_change) (simp add: c1)
  show ?thesis using price change by blast
qed

lemma scrape_single_source_price:
  assumes "scrape_single_source bs4 web ui sy = Some d"
  shows "truthy (py_get (observation.current_price d))"
proof (cases "web (url_info.url ui)")
  case None
  then show ?thesis using assms by (simp add: scrape_single_source_def)
next
  case (Some pg)
  show ?thesis
  proof (cases bs4)
    case True
    then have "extract_with_beautifulsoup pg (url_info.source ui) sy = Some d"
      using assms Some by (simp add: scrape_single_source_def)
    from extract_with_beautifulsoup_price[OF this] show ?thesis
      by (auto simp add: truthy_def py_get_def)
  next
    case False
    then have "extract_with_regex pg (url_info.source ui) sy = Some d"
      using assms Some by (simp add: scrape_single_source_def)
    from extract_with_regex_ranges[OF this] show ?thesis
      by (auto simp add: truthy_def py_get_def)
  qed
qed

lemma scrape_loop_all_priced:
  "list_all (\<lambda>d. truthy (py_get (observation.current_price d))) (scrape_loop bs4 web uis sy)"
  by (induction uis) (auto split: option.splits dest: scrape_single_source_price)

lemma collect_all_truthy:
  "list_all (\<lambda>d. truthy (py_get (key d))) ds \<Longrightarrow> length (collect key ds) = length ds"
  by (induction ds) (auto simp add: truthy_def split: option.splits)

lemma mc_change_loop_finds:
  "list_ex (\<lambda>sel. case select_one soup sel of None \<Rightarrow> False
                   | Some t \<Rightarrow> truthy (extract_percentage t)) sels \<Longrightarrow>
   observation.change_percent (mc_change_loop soup sels data) \<noteq> None"
  by (induction sels arbitrary: data) (auto simp add: Let_def split: option.splits)

lemma data_if_data_change:
  "observation.change_percent data \<noteq> None \<Longrightarrow> data_if_data data = Some data"
proof -
  assume a: "observation.change_percent data \<noteq> None"
  have "observation.change_percent (new_observation None) = None"
    by (simp add: new_observation_def)
  then have "data \<noteq> new_observation None" using a by auto
  then show ?thesis by (simp add: data_if_data_def)
qed

lemma scrape_moneycontrol_keeps_change:
  assumes "list_ex (\<lambda>sel. case select_one soup sel of None \<Rightarrow> False
                   | Some t \<Rightarrow> truthy (extract_percentage t))
             [''.gD_12 .FL'', ''.prcntchng'', attr ''data-field'' ''percentage_change'']"
  shows "\<exists>d. scrape_moneycontrol soup sy = Some d \<and> observation.change_percent d \<noteq> None"
proof -
  define d2 where "d2 = mc_change_loop soup
        [''.gD_12 .FL'', ''.prcntchng'', attr ''data-field'' ''percentage_change'']
        (mc_price_loop soup
          [''.pcnstkprc'', ''.prc_flot'', ''.FL .gD_12'', attr ''data-field'' ''last_price'', ''.prc'']
          (new_observation None))"
  define d3 where "d3 =
    (case select_one soup (attr ''data-field'' ''day_high'' @ '', .dayrangetd .FL'') of
       None \<Rightarrow> d2
     | Some t \<Rightarrow> d2\<lparr>observation.day_high := Some (clean_number t)\<rparr>)"
  define d4 where "d4 =
    (case select_one soup (attr ''data-field'' ''day_low'' @ '', .dayrangetd .FR'') of
       None \<Rightarrow> d3
     | Some t \<Rightarrow> d3\<lparr>observation.day_low := Some (clean_number t)\<rparr>)"
  have r: "scrape_moneycontrol soup sy = data_if_data d4"
    by (simp only: scrape_moneycontrol_def Let_def d4_def d3_def d2_def)
  have "observation.change_percent d2 \<noteq> None"
    unfolding d2_def by (rule mc_change_loop_finds[OF assms])
  moreover have "observation.change_percent d3 = observation.change_percent d2"
    by (simp add: d3_def split: option.splits)
  moreover have "observation.change_percent d4 = observation.change_percent d3"
    by (simp add: d4_def split: option.splits)
  ultimately have c: "observation.change_percent d4 \<noteq> None" by simp
  show ?thesis using c data_if_data_change[OF c] r by simp
qed

lemma generic_price_range:
  assumes "scrape_generic_financial_site doc sy = Inr (Some d)"
  shows "observation.current_price d = None \<or>
         (\<exists>p. 1 \<le> p \<and> p \<le> 100000 \<and> observation.current_price d = Some (Some p))"
proof -
  define d1 where
    "d1 = price_patterns_loop doc [RupeeSign, RsPrefix, PriceLabel, RupeesSuffix]
            (new_observation None)"
  have p1: "observation.current_price d1 = None \<or>
      (\<exists>p. 1 \<le> p \<and> p \<le> 100000 \<and> observation.current_price d1 = Some (Some p))"
    unfolding d1_def by (rule price_patterns_loop_price) (simp add: new_observation_def)
  have r: "scrape_generic_financial_site doc sy =
      (case findall doc Percent of
         [] \<Rightarrow> Inr (data_if_data d1)
       | m # _ \<Rightarrow>
           (case py_float m of
              None \<Rightarrow> Inl ValueError
            | Some c \<Rightarrow>
                Inr (data_if_data (d1\<lparr>observation.change_percent := Some (Some c)\<rparr>))))"
    by (simp only: scrape_generic_financial_site_def Let_def d1_def)
  have "d = d1 \<or> (\<exists>c. d = d1\<lparr>observation.change_percent := Some (Some c)\<rparr>)"
    using assms unfolding r
    by (auto simp add: data_if_data_def split: list.splits option.splits if_splits)
  then show ?thesis using p1 by auto
qed

subsection \<open>Day high and day low in the serverless variant\<close>













subsection \<open>The routines on the example pages\<close>

lemma lower_moneycontrol: "lower ''MoneyControl'' = ''moneycontrol''"
  by code_simp

lemma lower_livemint: "lower ''LiveMint'' = ''livemint''"
  by code_simp

lemma selectors_moneycontrol:
  "selectors ''MoneyControl'' =
     ([''.pcnstkprc'', ''.prc_flot'', ''.FL .gD_12'', attr ''data-field'' ''last_price''],
      [''.gD_12 .FL'', ''.prcntchng'', attr ''data-field'' ''percentage_change''])"
  by (simp add: selectors_def lower_moneycontrol)

lemma clean_number_3456: "clean_number (ascii ''3,456.70'') = Some (34567 / 10)"
  by (simp add: clean_number_def ascii_def replace_comma_def sub_non_numeric_def keep_numeric_def
      is_digit_low todecimal_low py_float_def float_body_def)

lemma clean_number_minus_5: "clean_number (ascii ''-5.00'') = Some (- 5)"
  by (simp add: clean_number_def ascii_def replace_comma_def sub_non_numeric_def keep_numeric_def
      is_digit_low todecimal_low py_float_def float_body_def)

lemma py_float_75: "py_float (ascii ''75'') = Some 75"
  by (simp add: ascii_def is_digit_low todecimal_low py_float_def float_body_def)

lemma py_float_minus_1_2: "py_float (ascii ''-1.2'') = Some (- (6 / 5))"
  by (simp add: ascii_def is_digit_low todecimal_low py_float_def float_body_def)

lemma moneycontrol_change_only:
  "scrape_moneycontrol change_only_page ''TCS'' =
     Some ((new_observation None)\<lparr>observation.change_percent := Some (Some (5 / 2))\<rparr>)"
  by (simp add: scrape_moneycontrol_def change_only_page_def page_def attr_def percent_examples
      truthy_def data_if_data_def new_observation_def)

lemma moneycontrol_negative_price:
  "scrape_moneycontrol negative_price_page ''TCS'' =
     Some ((new_observation None)\<lparr>observation.current_price := Some (Some (- 5))\<rparr>)"
  by (simp add: scrape_moneycontrol_def negative_price_page_def page_def attr_def
      clean_number_minus_5 truthy_def data_if_data_def new_observation_def)

lemma beautifulsoup_negative_price:
  "extract_with_beautifulsoup negative_price_page ''MoneyControl'' ''TCS'' = None"
  by (simp add: extract_with_beautifulsoup_def selectors_moneycontrol negative_price_page_def
      page_def attr_def clean_number_minus_5 truthy_def new_observation_def)

lemma beautifulsoup_change_only:
  "extract_with_beautifulsoup change_only_page ''MoneyControl'' ''TCS'' = None"
  by (simp add: extract_with_beautifulsoup_def selectors_moneycontrol change_only_page_def
      page_def attr_def percent_examples new_observation_def)

lemma generic_percent_75:
  "scrape_generic_financial_site percent_75_page ''TCS'' =
     Inr (Some ((new_observation None)
       \<lparr>observation.current_price := Some (Some (34567 / 10)),
        observation.change_percent := Some (Some 75)\<rparr>))"
  by (simp add: scrape_generic_financial_site_def percent_75_page_def page_def py_float_75
      clean_number_3456 truthy_def data_if_data_def new_observation_def)

lemma regex_percent_75:
  "extract_with_regex percent_75_page ''LiveMint'' ''TCS'' =
     Some (priced ''LiveMint'' (34567 / 10))"
  by (simp add: extract_with_regex_def percent_75_page_def page_def py_float_75
      clean_number_3456 truthy_def priced_def new_observation_def)

lemma generic_quoted:
  "scrape_generic_financial_site quoted_page ''TCS'' =
     Inr (Some ((new_observation None)
       \<lparr>observation.current_price := Some (Some (34567 / 10)),
        observation.change_percent := Some (Some (- (6 / 5)))\<rparr>))"
  by (simp add: scrape_generic_financial_site_def quoted_page_def page_def py_float_minus_1_2
      clean_number_3456 truthy_def data_if_data_def new_observation_def)

lemma url_dispatch:
  "contains ''moneycontrol.com'' (url_info.url moneycontrol_tcs)"
  "\<not> contains ''moneycontrol.com'' (url_info.url livemint_news)"
  "\<not> contains ''yahoo.com'' (url_info.url livemint_news)"
  "\<not> contains ''nseindia.com'' (url_info.url livemint_news)"
  "\<not> contains ''economictimes.indiatimes.com'' (url_info.url livemint_news)"
  "url_info.url moneycontrol_tcs \<noteq> url_info.url livemint_news"
  by (simp_all add: moneycontrol_tcs_def livemint_news_def)

lemma web_of_two:
  "web_of [(a, p), (b, q)] (url_info.url a) = Some p"
  "url_info.url a \<noteq> url_info.url b \<Longrightarrow> web_of [(a, p), (b, q)] (url_info.url b) = Some q"
  by (simp_all add: web_of_def)

lemma web_of_one:
  "web_of [(a, p)] (url_info.url a) = Some p"
  "url_info.url a \<noteq> url_info.url b \<Longrightarrow> web_of [(a, p)] (url_info.url b) = None"
  by (auto simp add: web_of_def)

lemma site_moneycontrol:
  "web (url_info.url moneycontrol_tcs) = Some pg \<Longrightarrow>
     scrape_financial_site web (url_info.url moneycontrol_tcs) sy = scrape_moneycontrol pg sy"
  by (simp add: scrape_financial_site_def url_dispatch)

lemma site_livemint:
  "web (url_info.url livemint_news) = Some pg \<Longrightarrow>
     scrape_financial_site web (url_info.url livemint_news) sy =
       (case scrape_generic_financial_site pg sy of Inl e \<Rightarrow> None | Inr r \<Rightarrow> r)"
  by (simp add: scrape_financial_site_def url_dispatch)

lemma standalone_loop_change_only:
  "search_and_scrape_loop
     (web_of [(moneycontrol_tcs, change_only_page), (livemint_news, quoted_page)])
     [moneycontrol_tcs, livemint_news] ''TCS'' =
   [(new_observation None)
      \<lparr>observation.change_percent := Some (Some (5 / 2)),
       observation.source := Some (url_info.source moneycontrol_tcs),
       observation.url := Some (url_info.url moneycontrol_tcs)\<rparr>,
    (new_observation None)
      \<lparr>observation.current_price := Some (Some (34567 / 10)),
       observation.change_percent := Some (Some (- (6 / 5))),
       observation.source := Some (url_info.source livemint_news),
       observation.url := Some (url_info.url livemint_news)\<rparr>]"
  by (simp add: site_moneycontrol site_livemint web_of_two url_dispatch
      moneycontrol_change_only generic_quoted)

lemma standalone_loop_negative:
  "search_and_scrape_loop (web_of [(moneycontrol_tcs, negative_price_page)])
     [moneycontrol_tcs] ''TCS'' =
   [(new_observation None)
      \<lparr>observation.current_price := Some (Some (- 5)),
       observation.source := Some (url_info.source moneycontrol_tcs),
       observation.url := Some (url_info.url moneycontrol_tcs)\<rparr>]"
  by (simp add: site_moneycontrol web_of_one moneycontrol_negative_price)

lemma standalone_loop_percent_75:
  "search_and_scrape_loop (web_of [(livemint_news, percent_75_page)])
     [livemint_news] ''TCS'' =
   [(new_observation None)
      \<lparr>observation.current_price := Some (Some (34567 / 10)),
       observation.change_percent := Some (Some 75),
       observation.source := Some (url_info.source livemint_news),
       observation.url := Some (url_info.url livemint_news)\<rparr>]"
  by (simp add: site_livemint web_of_one generic_percent_75)

lemma serverless_loop_percent_75:
  "scrape_loop False (web_of [(livemint_news, percent_75_page)]) [livemint_news] ''TCS'' =
     [priced ''LiveMint'' (34567 / 10)]"
  by (simp add: scrape_single_source_def web_of_one regex_percent_75)
     (simp add: livemint_news_def regex_percent_75)

lemma serverless_loop_change_only:
  "scrape_loop True (web_of [(moneycontrol_tcs, change_only_page)]) [moneycontrol_tcs] ''TCS'' = []"
  by (simp add: scrape_single_source_def web_of_one)
     (simp add: moneycontrol_tcs_def beautifulsoup_change_only)

lemma serverless_loop_negative:
  "scrape_loop True (web_of [(moneycontrol_tcs, negative_price_page)]) [moneycontrol_tcs] ''TCS'' = []"
  by (simp add: scrape_single_source_def web_of_one)
     (simp add: moneycontrol_tcs_def beautifulsoup_negative_price)

lemma selectors_livemint:
  "selectors ''LiveMint'' =
     ([''.price'', ''.current-price'', ''.last-price'', ''.ltp''],
      [''.change'', ''.percentage'', ''.change-percent''])"
  by (simp add: selectors_def lower_livemint)

lemma beautifulsoup_quoted_livemint:
  "extract_with_beautifulsoup quoted_page ''LiveMint'' ''TCS'' =
     Some (priced ''LiveMint'' (34567 / 10))"
  by (simp add: extract_with_beautifulsoup_def selectors_livemint quoted_page_def page_def
      clean_number_3456 truthy_def priced_def new_observation_def)

lemma serverless_loop_two_pages:
  "scrape_loop True (web_of [(moneycontrol_tcs, change_only_page), (livemint_news, quoted_page)])
     [moneycontrol_tcs, livemint_news] ''TCS'' = [priced ''LiveMint'' (34567 / 10)]"
proof -
  have a: "scrape_single_source True
      (web_of [(moneycontrol_tcs, change_only_page), (livemint_news, quoted_page)])
      moneycontrol_tcs ''TCS'' = None"
    by (simp add: scrape_single_source_def web_of_two)
       (simp add: moneycontrol_tcs_def beautifulsoup_change_only)
  have b: "scrape_single_source True
      (web_of [(moneycontrol_tcs, change_only_page), (livemint_news, quoted_page)])
      livemint_news ''TCS'' = Some (priced ''LiveMint'' (34567 / 10))"
    by (simp add: scrape_single_source_def web_of_two url_dispatch)
       (simp add: livemint_news_def beautifulsoup_quoted_livemint)
  show ?thesis by (simp add: a b)
qed

section \<open>The claims about the extraction routines\<close>

text \<open>
  Claim C3, at a failing input. On a MoneyControl page where only the element of class
  \<open>prcntchng\<close> exists, reading \<open>+2.5%\<close>, \<open>_scrape_moneycontrol\<close> of stock-scraper.py
  returns the observation \<open>{'change_percent': 2.5}\<close>. Fetched together with a LiveMint
  page that gives a price, it is listed in \<open>sources\<close> and lifts \<open>data_quality\<close> to
  \<open>medium\<close>. \<open>_extract_with_beautifulsoup\<close> of scrape-stock.py, which returns the dict only
  when it has the key \<open>current_price\<close>, returns no observation for the same page, and the
  quote of that variant lists one source with \<open>data_quality\<close> \<open>low\<close>.
\<close>

theorem price_less_observation_is_retained:
  "scrape_moneycontrol change_only_page ''TCS'' =
     Some ((new_observation None)\<lparr>observation.change_percent := Some (Some (5 / 2))\<rparr>) \<and>
   quote.sources
     (search_and_scrape_stock_data ''2024-01-01T00:00:00''
        (web_of [(moneycontrol_tcs, change_only_page), (livemint_news, quoted_page)])
        [moneycontrol_tcs, livemint_news] ''TCS'' ''Tata Consultancy Services'') =
     [''MoneyControl'', ''LiveMint''] \<and>
   quote.data_quality
     (search_and_scrape_stock_data ''2024-01-01T00:00:00''
        (web_of [(moneycontrol_tcs, change_only_page), (livemint_news, quoted_page)])
        [moneycontrol_tcs, livemint_news] ''TCS'' ''Tata Consultancy Services'') = ''medium'' \<and>
   extract_with_beautifulsoup change_only_page ''MoneyControl'' ''TCS'' = None \<and>
   quote.sources
     (scrape_stock_data ''2024-01-01T00:00:00'' True
        (web_of [(moneycontrol_tcs, change_only_page), (livemint_news, quoted_page)])
        [moneycontrol_tcs, livemint_news] ''TCS'' ''Tata Consultancy Services'') =
     [''LiveMint''] \<and>
   quote.data_quality
     (scrape_stock_data ''2024-01-01T00:00:00'' True
        (web_of [(moneycontrol_tcs, change_only_page), (livemint_news, quoted_page)])
        [moneycontrol_tcs, livemint_news] ''TCS'' ''Tata Consultancy Services'') = ''low''"
proof -
  have t: "take 3 [moneycontrol_tcs, livemint_news] = [moneycontrol_tcs, livemint_news]"
    by simp
  show ?thesis
    unfolding search_and_scrape_stock_data_def scrape_stock_data_def Let_def t
      standalone_loop_change_only serverless_loop_two_pages csd_sources csd_quality
      cd_sources cd_quality
    by (simp add: moneycontrol_change_only beautifulsoup_change_only spec_quality_def
        get_source_def moneycontrol_tcs_def livemint_news_def priced_def new_observation_def)
qed

text \<open>
  Claim C6, at a failing input. On a page whose text holds a price in rupees and \<open>75%\<close>,
  the generic routine of stock-scraper.py stores \<open>change_percent = 75\<close> unfiltered, and the
  quote reports 75; the regex routine of scrape-stock.py rejects 75 on the same page and
  the quote keeps its default 0. The price filter from 1 to 100000 is applied by both.
\<close>

theorem generic_percent_not_filtered:
  "scrape_generic_financial_site percent_75_page ''TCS'' =
     Inr (Some ((new_observation None)
       \<lparr>observation.current_price := Some (Some (34567 / 10)),
        observation.change_percent := Some (Some 75)\<rparr>)) \<and>
   quote.change_percent
     (search_and_scrape_stock_data ''2024-01-01T00:00:00''
        (web_of [(livemint_news, percent_75_page)])
        [livemint_news] ''TCS'' ''Tata Consultancy Services'') = 75 \<and>
   extract_with_regex percent_75_page ''LiveMint'' ''TCS'' =
     Some (priced ''LiveMint'' (34567 / 10)) \<and>
   quote.change_percent
     (scrape_stock_data ''2024-01-01T00:00:00'' False
        (web_of [(livemint_news, percent_75_page)])
        [livemint_news] ''TCS'' ''Tata Consultancy Services'') = 0"
  unfolding search_and_scrape_stock_data_def scrape_stock_data_def Let_def take.simps
    standalone_loop_percent_75 csd_change cd_change
  by (simp add: generic_percent_75 regex_percent_75 serverless_loop_percent_75
      spec_consensus_def new_observation_def py_get_def truthy_def priced_def
      del: scrape_loop.simps)

text \<open>
  Claim C7, at a failing input. On a MoneyControl page whose element of class
  \<open>pcnstkprc\<close> reads \<open>-5.00\<close>, \<open>_scrape_moneycontrol\<close> of stock-scraper.py stores
  \<open>current_price = -5\<close> and the quote reports -5; \<open>_extract_with_beautifulsoup\<close> of
  scrape-stock.py, which checks \<open>price > 0\<close>, returns no observation for the same page.
\<close>

theorem moneycontrol_stores_negative_price:
  "scrape_moneycontrol negative_price_page ''TCS'' =
     Some ((new_observation None)\<lparr>observation.current_price := Some (Some (- 5))\<rparr>) \<and>
   quote.current_price
     (search_and_scrape_stock_data ''2024-01-01T00:00:00''
        (web_of [(moneycontrol_tcs, negative_price_page)])
        [moneycontrol_tcs] ''TCS'' ''Tata Consultancy Services'') = - 5 \<and>
   extract_with_beautifulsoup negative_price_page ''MoneyControl'' ''TCS'' = None"
  unfolding search_and_scrape_stock_data_def Let_def standalone_loop_negative csd_price
  by (simp add: moneycontrol_negative_price beautifulsoup_negative_price spec_consensus_def
      new_observation_def py_get_def truthy_def)


end
